theory Spec2Isabelle
  imports Complex_Main "HOL-Library.Word"
begin

section \<open>Conventions\<close>

text \<open>
  The development embeds \<^verbatim>\<open>ph.py\<close> and \<^verbatim>\<open>pump.py\<close>.
  Python floats are idealised as \<^typ>\<open>real\<close> (exact arithmetic), Python's unbounded
  integers are \<^typ>\<open>int\<close>, and the bytes delivered by the I2C bus are \<^typ>\<open>8 word\<close>.
  Every \<^verbatim>\<open>raise\<close> of the source, and every exception raised by an operation the
  source performs (a division, an index, a bus transaction), is a value \<open>Inl e\<close> of a
  result type \<open>error + 'a\<close>.
\<close>

datatype error =
    TemperatureOutOfRange         \<comment> \<open>\<^verbatim>\<open>Exception('Temperature is out of range')\<close>\<close>
  | UnsupportedCalibrationArity   \<comment> \<open>\<^verbatim>\<open>Exception('Only two point calibration is supported')\<close>\<close>
  | ElectrodeSlopeOutOfRange real \<comment> \<open>\<^verbatim>\<open>Exception('Electrode slope %.2f is out of range, ...')\<close>\<close>
  | ElectrodeOffsetOutOfRange real \<comment> \<open>\<^verbatim>\<open>Exception('Electrode offset %.0f mV is out of range, ...')\<close>\<close>
  | ZeroDivisionError             \<comment> \<open>raised by Python's \<^verbatim>\<open>/\<close> on a zero divisor\<close>
  | IndexError                    \<comment> \<open>raised by list indexing out of range\<close>
  | StatisticsError               \<comment> \<open>raised by \<^verbatim>\<open>statistics.mean\<close> and \<^verbatim>\<open>pstdev\<close> on no data\<close>
  | BusReadFailure                \<comment> \<open>raised by the bus driver\<close>

text \<open>Python's true division \<^verbatim>\<open>a / b\<close>.\<close>

definition py_div :: "real \<Rightarrow> real \<Rightarrow> error + real" where
  "py_div a b = (if b = 0 then Inl ZeroDivisionError else Inr (a / b))"

section \<open>The settings module\<close>

text \<open>
  \<^verbatim>\<open>ph.py\<close> and \<^verbatim>\<open>pump.py\<close> read \<^verbatim>\<open>settings.PH_CALIBRATION\<close>,
  \<^verbatim>\<open>settings.PH_ADC_V_OFFSET\<close>, \<^verbatim>\<open>settings.PH_ADC_V_REF\<close>, the bus and pin numbers
  and \<^verbatim>\<open>settings.PUMP_CALIBRATION['steps_per_litre']\<close>. The values are configuration;
  they are a parameter of every operation that reads them.
\<close>

record calibration_point =
  ph :: real
  voltage :: real

record ph_calibration =
  points :: "calibration_point list"
  temperature :: real

record settings =
  PH_CALIBRATION :: ph_calibration
  PH_ADC_V_OFFSET :: real
  PH_ADC_V_REF :: real
  PH_ADC_I2C_BUSN :: nat
  PH_ADC_I2C_ADDR :: nat
  PUMP_GPIO_SLEEP :: nat
  PUMP_GPIO_STEP :: nat
  steps_per_litre_setting :: real  \<comment> \<open>\<^verbatim>\<open>PUMP_CALIBRATION['steps_per_litre']\<close>\<close>

section \<open>PHTheory\<close>

text \<open>\<^verbatim>\<open>PHTheory.ideal_slope(temp)\<close>: slope of the ideal pH electrode, in V/pH.\<close>

definition ideal_slope :: "real \<Rightarrow> error + real" where
  "ideal_slope temp =
     (if temp < 0 \<or> temp > 100 then Inl TemperatureOutOfRange
      else
        (let gas_const = 8.3144;
             faraday_const = 96485;
             abs_zero_temp = - 273.15;
             ln_10 = 2.3026
         in Inr (gas_const * (temp - abs_zero_temp) * ln_10 / faraday_const)))"

text \<open>
  \<^verbatim>\<open>PHTheory.compute_slope\<close>: \<^verbatim>\<open>(v1 - v2) / (ph2 - ph1) / PHTheory.ideal_slope(temp)\<close>,
  evaluated left to right: the first division happens before \<^verbatim>\<open>ideal_slope\<close> is called.
\<close>

definition compute_slope :: "real \<Rightarrow> real \<Rightarrow> real \<Rightarrow> real \<Rightarrow> real \<Rightarrow> error + real" where
  "compute_slope temp ph1 v1 ph2 v2 =
     (case py_div (v1 - v2) (ph2 - ph1) of
        Inl e \<Rightarrow> Inl e
      | Inr q \<Rightarrow>
          (case ideal_slope temp of
             Inl e \<Rightarrow> Inl e
           | Inr s \<Rightarrow> py_div q s))"

text \<open>\<^verbatim>\<open>PHTheory.compute_offset\<close>: \<^verbatim>\<open>v + slope * PHTheory.ideal_slope(temp) * (ph - 7)\<close>.\<close>

definition compute_offset :: "real \<Rightarrow> real \<Rightarrow> real \<Rightarrow> real \<Rightarrow> error + real" where
  "compute_offset temp slope ph_value v =
     (case ideal_slope temp of
        Inl e \<Rightarrow> Inl e
      | Inr s \<Rightarrow> Inr (v + slope * s * (ph_value - 7)))"

text \<open>\<^verbatim>\<open>PHTheory.compute_ph\<close>: \<^verbatim>\<open>7 + (offset - v) / (slope * PHTheory.ideal_slope(temp))\<close>.\<close>

definition compute_ph :: "real \<Rightarrow> real \<Rightarrow> real \<Rightarrow> real \<Rightarrow> error + real" where
  "compute_ph temp offset slope v =
     (case ideal_slope temp of
        Inl e \<Rightarrow> Inl e
      | Inr s \<Rightarrow>
          (case py_div (offset - v) (slope * s) of
             Inl e \<Rightarrow> Inl e
           | Inr q \<Rightarrow> Inr (7 + q)))"

section \<open>PHCalibration\<close>

text \<open>Python's \<^verbatim>\<open>xs[i]\<close> for a non-negative index.\<close>

definition get_item :: "'a list \<Rightarrow> nat \<Rightarrow> error + 'a" where
  "get_item xs i = (if i < length xs then Inr (xs ! i) else Inl IndexError)"

text \<open>Acceptable electrode properties (compared to the ideal electrode).\<close>

definition max_slope_drift :: real where
  "max_slope_drift = 0.2"

definition max_v_ph7_drift :: real where
  "max_v_ph7_drift = 0.030"  \<comment> \<open>\<^verbatim>\<open>30e-3\<close>\<close>

record PHCalibration =
  slope :: real
  offset :: real

text \<open>
  \<^verbatim>\<open>PHCalibration.__init__\<close>. The attributes are assigned before the checks, but an
  exception leaves no object behind, so only the successful outcome carries them. The
  closing \<^verbatim>\<open>print\<close> of the status line has no effect on the result and is left out.
\<close>

definition PHCalibration_init :: "settings \<Rightarrow> error + PHCalibration" where
  "PHCalibration_init st =
     (if length (points (PH_CALIBRATION st)) \<noteq> 2 then Inl UnsupportedCalibrationArity
      else
        (case get_item (points (PH_CALIBRATION st)) 0 of
           Inl e \<Rightarrow> Inl e
         | Inr point1 \<Rightarrow>
        (case get_item (points (PH_CALIBRATION st)) 1 of
           Inl e \<Rightarrow> Inl e
         | Inr point2 \<Rightarrow>
        (let temp = temperature (PH_CALIBRATION st) in
        (case compute_slope temp (ph point1) (voltage point1) (ph point2) (voltage point2) of
           Inl e \<Rightarrow> Inl e
         | Inr sl \<Rightarrow>
        (case compute_offset temp sl (ph point1) (voltage point1) of
           Inl e \<Rightarrow> Inl e
         | Inr off \<Rightarrow>
             if \<bar>sl - 1\<bar> > max_slope_drift then Inl (ElectrodeSlopeOutOfRange sl)
             else
               (let v_ph7 = off - PH_ADC_V_OFFSET st
                in if \<bar>v_ph7\<bar> > max_v_ph7_drift then Inl (ElectrodeOffsetOutOfRange v_ph7)
                   else Inr \<lparr>slope = sl, offset = off\<rparr>)))))))"

text \<open>\<^verbatim>\<open>PHCalibration.compute_ph(self, temp, v)\<close>.\<close>

definition PHCalibration_compute_ph :: "PHCalibration \<Rightarrow> real \<Rightarrow> real \<Rightarrow> error + real" where
  "PHCalibration_compute_ph self temp v = compute_ph temp (offset self) (slope self) v"

section \<open>ADCInterface\<close>

text \<open>
  The bus is a primitive of the \<^verbatim>\<open>smbus\<close> library. A bus is the device behind it, which
  answers the \<open>n\<close>-th transaction either with a failure or with a stream of bytes, and
  the number of transactions made so far. \<^verbatim>\<open>read_i2c_block_data(addr, cmd, length)\<close>
  returns the first \<open>length\<close> bytes of the answer.
\<close>

record SMBus =
  device :: "nat \<Rightarrow> (nat \<Rightarrow> 8 word) option"
  transactions :: nat

definition read_i2c_block_data ::
    "SMBus \<Rightarrow> nat \<Rightarrow> nat \<Rightarrow> nat \<Rightarrow> error + (8 word list \<times> SMBus)" where
  "read_i2c_block_data bus addr cmd len =
     (case device bus (transactions bus) of
        None \<Rightarrow> Inl BusReadFailure
      | Some reply \<Rightarrow>
          Inr (map reply [0..<len], bus\<lparr>transactions := Suc (transactions bus)\<rparr>))"

definition adc_bits :: nat where
  "adc_bits = 12"

definition filter_samples :: nat where
  "filter_samples = 256"

text \<open>\<^verbatim>\<open>float(value) * settings.PH_ADC_V_REF / (1 << self.adc_bits)\<close>.\<close>

definition value_to_voltage :: "settings \<Rightarrow> real \<Rightarrow> real" where
  "value_to_voltage st v = v * PH_ADC_V_REF st / real_of_int (push_bit adc_bits 1)"

text \<open>\<^verbatim>\<open>ADCInterface._get_value\<close>: \<^verbatim>\<open>(reading[0] << 8) + reading[1]\<close>.\<close>

definition priv_get_value :: "settings \<Rightarrow> SMBus \<Rightarrow> error + (int \<times> SMBus)" where
  "priv_get_value st bus =
     (case read_i2c_block_data bus (PH_ADC_I2C_ADDR st) 0 2 of
        Inl e \<Rightarrow> Inl e
      | Inr (reading, bus') \<Rightarrow>
          (case get_item reading 0 of
             Inl e \<Rightarrow> Inl e
           | Inr r0 \<Rightarrow>
               (case get_item reading 1 of
                  Inl e \<Rightarrow> Inl e
                | Inr r1 \<Rightarrow> Inr (push_bit 8 (uint r0) + uint r1, bus'))))"

text \<open>
  \<^verbatim>\<open>ADCInterface._get_values\<close>: the loop \<^verbatim>\<open>for n in range(0, self.filter_samples)\<close>,
  with the number of iterations still to run as the recursion argument.
\<close>

fun get_values_loop :: "settings \<Rightarrow> nat \<Rightarrow> int list \<Rightarrow> SMBus \<Rightarrow> error + (int list \<times> SMBus)" where
  "get_values_loop st 0 vals bus = Inr (vals, bus)"
| "get_values_loop st (Suc n) vals bus =
     (case priv_get_value st bus of
        Inl e \<Rightarrow> Inl e
      | Inr (v, bus') \<Rightarrow> get_values_loop st n (vals @ [v]) bus')"

definition priv_get_values :: "settings \<Rightarrow> SMBus \<Rightarrow> error + (int list \<times> SMBus)" where
  "priv_get_values st bus = get_values_loop st filter_samples [] bus"

text \<open>
  \<^verbatim>\<open>statistics.mean\<close> and \<^verbatim>\<open>statistics.pstdev\<close> of the Python standard library:
  the arithmetic mean, and the square root of the population variance; both raise
  \<^verbatim>\<open>StatisticsError\<close> on an empty sequence.
\<close>

definition mean :: "int list \<Rightarrow> error + real" where
  "mean xs =
     (if xs = [] then Inl StatisticsError
      else Inr (real_of_int (sum_list xs) / real (length xs)))"

definition pstdev :: "int list \<Rightarrow> error + real" where
  "pstdev xs =
     (case mean xs of
        Inl e \<Rightarrow> Inl e
      | Inr mu \<Rightarrow>
          Inr (sqrt (sum_list (map (\<lambda>x. (real_of_int x - mu)\<^sup>2) xs) / real (length xs))))"

text \<open>
  The dictionary built by \<^verbatim>\<open>get_value_with_stat\<close> and extended by
  \<^verbatim>\<open>get_voltage_with_stat\<close>, with the keys \<^verbatim>\<open>'value'\<close>, \<^verbatim>\<open>'value_dev'\<close>,
  \<^verbatim>\<open>'voltage'\<close> and \<^verbatim>\<open>'voltage_dev'\<close>; the last two are absent until assigned.
\<close>

record stat =
  stat_value :: real
  stat_value_dev :: real
  stat_voltage :: "real option"
  stat_voltage_dev :: "real option"

definition get_value_with_stat :: "settings \<Rightarrow> SMBus \<Rightarrow> error + (stat \<times> SMBus)" where
  "get_value_with_stat st bus =
     (case priv_get_values st bus of
        Inl e \<Rightarrow> Inl e
      | Inr (vals, bus') \<Rightarrow>
          (case mean vals of
             Inl e \<Rightarrow> Inl e
           | Inr m \<Rightarrow>
               (case pstdev vals of
                  Inl e \<Rightarrow> Inl e
                | Inr d \<Rightarrow>
                    Inr (\<lparr>stat_value = m, stat_value_dev = d,
                          stat_voltage = None, stat_voltage_dev = None\<rparr>, bus'))))"

definition get_voltage_with_stat :: "settings \<Rightarrow> SMBus \<Rightarrow> error + (stat \<times> SMBus)" where
  "get_voltage_with_stat st bus =
     (case get_value_with_stat st bus of
        Inl e \<Rightarrow> Inl e
      | Inr (data, bus') \<Rightarrow>
          (let data1 = data\<lparr>stat_voltage := Some (value_to_voltage st (stat_value data))\<rparr>;
               data2 = data1\<lparr>stat_voltage_dev :=
                          Some (value_to_voltage st (stat_value_dev data1))\<rparr>
           in Inr (data2, bus')))"

section \<open>PumpInterface\<close>

text \<open>
  The effects of \<^verbatim>\<open>pump.py\<close> are calls of \<^verbatim>\<open>GPIO.output\<close> and \<^verbatim>\<open>time.sleep\<close>.
  The state records the level of every pin and the sequence of calls made.
\<close>

datatype event = Output nat bool | Sleep real

record gpio =
  level :: "nat \<Rightarrow> bool"
  trace :: "event list"

definition GPIO_output :: "nat \<Rightarrow> bool \<Rightarrow> gpio \<Rightarrow> gpio" where
  "GPIO_output pin v g = g\<lparr>level := (level g)(pin := v), trace := trace g @ [Output pin v]\<rparr>"

definition time_sleep :: "real \<Rightarrow> gpio \<Rightarrow> gpio" where
  "time_sleep d g = g\<lparr>trace := trace g @ [Sleep d]\<rparr>"

text \<open>Pump and driver properties (class attributes of \<^verbatim>\<open>PumpInterface\<close>).\<close>

definition max_rpm :: int where
  "max_rpm = 30"

definition step_angle :: real where
  "step_angle = 1.8"

definition wake_up_time :: real where
  "wake_up_time = 0.001"  \<comment> \<open>\<^verbatim>\<open>1e-3\<close>\<close>

definition microsteps :: int where
  "microsteps = 8"

definition max_step_frequency :: real where
  "max_step_frequency =
     (let max_rotation_frequency = real_of_int max_rpm / 60;
          steps_per_rotation = 360.0 / step_angle * real_of_int microsteps
      in max_rotation_frequency * steps_per_rotation)"

record PumpInterface =
  steps_per_litre :: real

text \<open>
  \<^verbatim>\<open>PumpInterface.__init__\<close>: reads the calibration and drives both lines low.
  \<^verbatim>\<open>GPIO.setmode\<close> and \<^verbatim>\<open>GPIO.setup\<close> configure the pins and change no level.
\<close>

definition PumpInterface_init :: "settings \<Rightarrow> gpio \<Rightarrow> PumpInterface \<times> gpio" where
  "PumpInterface_init st g =
     (\<lparr>steps_per_litre = steps_per_litre_setting st\<rparr>,
      GPIO_output (PUMP_GPIO_STEP st) False (GPIO_output (PUMP_GPIO_SLEEP st) False g))"

text \<open>Python's \<^verbatim>\<open>int(x)\<close> on a float: truncation towards zero.\<close>

definition py_int :: "real \<Rightarrow> int" where
  "py_int x = (if x < 0 then \<lceil>x\<rceil> else \<lfloor>x\<rfloor>)"

text \<open>
  The loop \<^verbatim>\<open>for t in range(0, int(count))\<close> of \<^verbatim>\<open>step\<close>, with the number of
  iterations still to run as the recursion argument.
\<close>

fun step_loop :: "settings \<Rightarrow> nat \<Rightarrow> gpio \<Rightarrow> gpio" where
  "step_loop st 0 g = g"
| "step_loop st (Suc n) g =
     step_loop st n
       (time_sleep (0.5 / max_step_frequency)
         (GPIO_output (PUMP_GPIO_STEP st) False
           (time_sleep (0.5 / max_step_frequency)
             (GPIO_output (PUMP_GPIO_STEP st) True g))))"

text \<open>
  \<^verbatim>\<open>PumpInterface.step(count)\<close>. \<^verbatim>\<open>range(0, n)\<close> is empty for \<open>n \<le> 0\<close>, which is
  what \<^const>\<open>nat\<close> gives.
\<close>

definition step :: "settings \<Rightarrow> real \<Rightarrow> gpio \<Rightarrow> gpio" where
  "step st count g =
     (let g1 = GPIO_output (PUMP_GPIO_SLEEP st) True g;
          g2 = time_sleep wake_up_time g1;
          g3 = step_loop st (nat (py_int count)) g2
      in GPIO_output (PUMP_GPIO_SLEEP st) False g3)"

text \<open>\<^verbatim>\<open>PumpInterface.pump(volume)\<close>.\<close>

definition pump :: "settings \<Rightarrow> PumpInterface \<Rightarrow> real \<Rightarrow> gpio \<Rightarrow> gpio" where
  "pump st self volume g = step st (volume * steps_per_litre self) g"

text \<open>The observations the properties below are stated on.\<close>

definition step_pulse :: "settings \<Rightarrow> event list" where
  "step_pulse st =
     [Output (PUMP_GPIO_STEP st) True, Sleep (0.5 / max_step_frequency),
      Output (PUMP_GPIO_STEP st) False, Sleep (0.5 / max_step_frequency)]"

definition pulses_emitted :: "settings \<Rightarrow> event list \<Rightarrow> nat" where
  "pulses_emitted st evs = length (filter (\<lambda>e. e = Output (PUMP_GPIO_STEP st) True) evs)"

definition idle :: "settings \<Rightarrow> gpio \<Rightarrow> bool" where
  "idle st g \<longleftrightarrow> \<not> level g (PUMP_GPIO_SLEEP st) \<and> \<not> level g (PUMP_GPIO_STEP st)"

section \<open>Example configurations\<close>

text \<open>
  The values of \<^verbatim>\<open>settings.py\<close>, and two variations used to exercise the
  boundaries of the calibration checks.
\<close>

definition example_settings :: settings where
  "example_settings =
     \<lparr>PH_CALIBRATION =
        \<lparr>points = [\<lparr>ph = 4.0, voltage = 1.418\<rparr>, \<lparr>ph = 7.0, voltage = 1.224\<rparr>],
         temperature = 21.2\<rparr>,
      PH_ADC_V_OFFSET = 1.251,
      PH_ADC_V_REF = 2.5,
      PH_ADC_I2C_BUSN = 1,
      PH_ADC_I2C_ADDR = 0x4F,
      PUMP_GPIO_SLEEP = 17,
      PUMP_GPIO_STEP = 27,
      steps_per_litre_setting = 1050\<rparr>"

definition boundary_settings :: settings where
  "boundary_settings =
     \<lparr>PH_CALIBRATION =
        \<lparr>points = [\<lparr>ph = 7, voltage = 1.2 * (8.3144 * (25 - (- 273.15)) * 2.3026 / 96485)\<rparr>,
                   \<lparr>ph = 8, voltage = 0\<rparr>],
         temperature = 25\<rparr>,
      PH_ADC_V_OFFSET = 1.2 * (8.3144 * (25 - (- 273.15)) * 2.3026 / 96485) - 0.030,
      PH_ADC_V_REF = 2.5,
      PH_ADC_I2C_BUSN = 1,
      PH_ADC_I2C_ADDR = 0x4F,
      PUMP_GPIO_SLEEP = 17,
      PUMP_GPIO_STEP = 27,
      steps_per_litre_setting = 1050\<rparr>"

definition equal_ph_settings :: settings where
  "equal_ph_settings =
     \<lparr>PH_CALIBRATION =
        \<lparr>points = [\<lparr>ph = 7, voltage = 1.3\<rparr>, \<lparr>ph = 7, voltage = 1.2\<rparr>],
         temperature = 25\<rparr>,
      PH_ADC_V_OFFSET = 1.251,
      PH_ADC_V_REF = 2.5,
      PH_ADC_I2C_BUSN = 1,
      PH_ADC_I2C_ADDR = 0x4F,
      PUMP_GPIO_SLEEP = 17,
      PUMP_GPIO_STEP = 27,
      steps_per_litre_setting = 1050\<rparr>"

text \<open>
  The value \<^verbatim>\<open>_get_value\<close> composes from a reply of the device, and a device that
  answers every transaction with the same two bytes.
\<close>

definition reading_value :: "(nat \<Rightarrow> 8 word) \<Rightarrow> int" where
  "reading_value reply = push_bit 8 (uint (reply 0)) + uint (reply 1)"

definition constant_reply :: "8 word \<Rightarrow> 8 word \<Rightarrow> nat \<Rightarrow> 8 word" where
  "constant_reply b0 b1 i = (if i = 0 then b0 else b1)"

definition constant_bus :: "8 word \<Rightarrow> 8 word \<Rightarrow> SMBus" where
  "constant_bus b0 b1 = \<lparr>device = (\<lambda>n. Some (constant_reply b0 b1)), transactions = 0\<rparr>"

text \<open>
  The pins before \<^verbatim>\<open>PumpInterface.__init__\<close> has run, the pump object and the pin
  state it leaves, and the calls a pump operation adds to the trace.
\<close>

definition initial_gpio :: gpio where
  "initial_gpio = \<lparr>level = (\<lambda>pin. False), trace = []\<rparr>"

definition example_pump :: PumpInterface where
  "example_pump = fst (PumpInterface_init example_settings initial_gpio)"

definition example_gpio :: gpio where
  "example_gpio = snd (PumpInterface_init example_settings initial_gpio)"

definition emitted :: "gpio \<Rightarrow> gpio \<Rightarrow> event list" where
  "emitted g g' = drop (length (trace g)) (trace g')"

section \<open>Properties of PHTheory\<close>

lemma ideal_slope_in_range:
  "0 \<le> temp \<Longrightarrow> temp \<le> 100 \<Longrightarrow>
   ideal_slope temp = Inr (8.3144 * (temp - (- 273.15)) * 2.3026 / 96485)"
  by (simp add: ideal_slope_def)

lemma ideal_slope_positive:
  "ideal_slope temp = Inr s \<Longrightarrow> 0 < s"
  by (auto simp add: ideal_slope_def Let_def split: if_splits)

text \<open>
  Claim C4. \<^verbatim>\<open>ideal_slope(temp)\<close> raises the temperature error exactly when
  \<open>temp < 0\<close> or \<open>temp > 100\<close>; the end points 0 and 100 return a value while -0.001
  and 100.001 fail; inside the closed interval the result is
  \<open>R * (temp - absolute_zero) * ln10 / F\<close> with the four constants of the source, and
  the result is strictly increasing in the temperature.
\<close>

theorem ideal_slope_range_and_value:
  "(ideal_slope temp = Inl TemperatureOutOfRange \<longleftrightarrow> temp < 0 \<or> temp > 100)
   \<and> ((\<exists>e. ideal_slope temp = Inl e) \<longleftrightarrow> temp < 0 \<or> temp > 100)
   \<and> ideal_slope 0 = Inr (8.3144 * (0 - (- 273.15)) * 2.3026 / 96485)
   \<and> ideal_slope 100 = Inr (8.3144 * (100 - (- 273.15)) * 2.3026 / 96485)
   \<and> ideal_slope (- 0.001) = Inl TemperatureOutOfRange
   \<and> ideal_slope 100.001 = Inl TemperatureOutOfRange
   \<and> (0 \<le> temp \<and> temp \<le> 100 \<longrightarrow>
        ideal_slope temp = Inr (8.3144 * (temp - (- 273.15)) * 2.3026 / 96485))
   \<and> (\<forall>t1 t2 s1 s2. ideal_slope t1 = Inr s1 \<and> ideal_slope t2 = Inr s2 \<and> t1 < t2
        \<longrightarrow> s1 < s2)"
proof -
  have p1: "ideal_slope temp = Inl TemperatureOutOfRange \<longleftrightarrow> temp < 0 \<or> temp > 100"
    by (simp add: ideal_slope_def)
  have p2: "(\<exists>e. ideal_slope temp = Inl e) \<longleftrightarrow> temp < 0 \<or> temp > 100"
    by (simp add: ideal_slope_def)
  have p3: "ideal_slope 0 = Inr (8.3144 * (0 - (- 273.15)) * 2.3026 / 96485)"
    by (rule ideal_slope_in_range) simp_all
  have p4: "ideal_slope 100 = Inr (8.3144 * (100 - (- 273.15)) * 2.3026 / 96485)"
    by (rule ideal_slope_in_range) simp_all
  have p5: "ideal_slope (- 0.001) = Inl TemperatureOutOfRange"
    by (simp add: ideal_slope_def)
  have p6: "ideal_slope 100.001 = Inl TemperatureOutOfRange"
    by (simp add: ideal_slope_def)
  have p7: "0 \<le> temp \<and> temp \<le> 100 \<longrightarrow>
        ideal_slope temp = Inr (8.3144 * (temp - (- 273.15)) * 2.3026 / 96485)"
    by (simp add: ideal_slope_in_range)
  have p8: "\<forall>t1 t2 s1 s2. ideal_slope t1 = Inr s1 \<and> ideal_slope t2 = Inr s2 \<and> t1 < t2
        \<longrightarrow> s1 < s2"
    by (auto simp add: ideal_slope_def Let_def split: if_splits)
  from p1 p2 p3 p4 p5 p6 p7 p8 show ?thesis by blast
qed

theorem ideal_slope_range_and_value_witness:
  "ideal_slope 25 = Inr (8.3144 * 298.15 * 2.3026 / 96485)
   \<and> ideal_slope 0 = Inr (8.3144 * 273.15 * 2.3026 / 96485)
   \<and> ideal_slope 100 = Inr (8.3144 * 373.15 * 2.3026 / 96485)
   \<and> (8.3144 * 273.15 * 2.3026 / 96485 :: real) < 8.3144 * 373.15 * 2.3026 / 96485"
proof -
  have a: "ideal_slope 25 = Inr (8.3144 * (25 - (- 273.15)) * 2.3026 / 96485)"
    using ideal_slope_range_and_value [of 25] by simp
  have b: "ideal_slope 0 = Inr (8.3144 * (0 - (- 273.15)) * 2.3026 / 96485)"
    using ideal_slope_range_and_value [of 0] by simp
  have c: "ideal_slope 100 = Inr (8.3144 * (100 - (- 273.15)) * 2.3026 / 96485)"
    using ideal_slope_range_and_value [of 100] by simp
  have mono: "\<forall>t1 t2 s1 s2. ideal_slope t1 = Inr s1 \<and> ideal_slope t2 = Inr s2 \<and> t1 < t2
        \<longrightarrow> s1 < s2"
    using ideal_slope_range_and_value [of 0] by blast
  have lt: "(0::real) < 100" by simp
  have d: "(8.3144 * (0 - (- 273.15)) * 2.3026 / 96485 :: real)
             < 8.3144 * (100 - (- 273.15)) * 2.3026 / 96485"
    using mono b c lt by blast
  from a b c d show ?thesis by simp
qed

lemma ideal_slope_in_range_pos:
  "0 \<le> temp \<Longrightarrow> temp \<le> 100 \<Longrightarrow> \<exists>s. ideal_slope temp = Inr s \<and> 0 < s"
  using ideal_slope_in_range ideal_slope_positive by blast

text \<open>
  Claim C3. Round trip: for every temperature in \<open>[0, 100]\<close>, every nonzero slope,
  every voltage and every measurement value \<open>m\<close>, \<^verbatim>\<open>compute_offset\<close> returns an
  offset, and \<^verbatim>\<open>compute_ph\<close> at that offset, the same temperature, slope and voltage
  returns exactly \<open>m\<close> (in exact arithmetic).
\<close>

theorem compute_ph_compute_offset_roundtrip:
  assumes "0 \<le> temp" and "temp \<le> 100" and "sl \<noteq> 0"
  shows "\<exists>off. compute_offset temp sl m v = Inr off \<and> compute_ph temp off sl v = Inr m"
proof -
  obtain s where s: "ideal_slope temp = Inr s" and pos: "0 < s"
    using ideal_slope_in_range_pos [OF assms(1,2)] by blast
  have nz: "sl * s \<noteq> 0" using assms(3) pos by simp
  have off: "compute_offset temp sl m v = Inr (v + sl * s * (m - 7))"
    by (simp add: compute_offset_def s)
  have "compute_ph temp (v + sl * s * (m - 7)) sl v = Inr (7 + (sl * s * (m - 7)) / (sl * s))"
    using nz by (simp add: compute_ph_def s py_div_def)
  also have "(sl * s * (m - 7)) / (sl * s) = m - 7"
    using nz by simp
  finally have "compute_ph temp (v + sl * s * (m - 7)) sl v = Inr m" by simp
  with off show ?thesis by blast
qed

theorem compute_ph_compute_offset_roundtrip_witness:
  "\<exists>off. compute_offset 25 1.1 4 1.418 = Inr off \<and> compute_ph 25 off 1.1 1.418 = Inr 4"
  using compute_ph_compute_offset_roundtrip [of 25 "1.1" 4 "1.418"] by simp

section \<open>Properties of PHCalibration\<close>

lemma init_two_points:
  "points (PH_CALIBRATION st) = [p1, p2] \<Longrightarrow>
   PHCalibration_init st =
     (case compute_slope (temperature (PH_CALIBRATION st)) (ph p1) (voltage p1) (ph p2) (voltage p2) of
        Inl e \<Rightarrow> Inl e
      | Inr sl \<Rightarrow>
        (case compute_offset (temperature (PH_CALIBRATION st)) sl (ph p1) (voltage p1) of
           Inl e \<Rightarrow> Inl e
         | Inr off \<Rightarrow>
             if \<bar>sl - 1\<bar> > max_slope_drift then Inl (ElectrodeSlopeOutOfRange sl)
             else if \<bar>off - PH_ADC_V_OFFSET st\<bar> > max_v_ph7_drift
                  then Inl (ElectrodeOffsetOutOfRange (off - PH_ADC_V_OFFSET st))
                  else Inr \<lparr>slope = sl, offset = off\<rparr>))"
  by (simp add: PHCalibration_init_def get_item_def Let_def split: sum.splits)

lemma init_success_two_points:
  assumes "PHCalibration_init st = Inr cal"
  shows "\<exists>p1 p2. points (PH_CALIBRATION st) = [p1, p2]"
proof -
  have "length (points (PH_CALIBRATION st)) = 2"
    using assms by (auto simp add: PHCalibration_init_def split: if_splits)
  then show ?thesis
    by (cases "points (PH_CALIBRATION st)" rule: list.exhaust)
       (auto simp add: length_Suc_conv)
qed

lemma init_success_slope:
  assumes "PHCalibration_init st = Inr cal"
  shows "\<bar>slope cal - 1\<bar> \<le> 0.2"
proof -
  obtain p1 p2 where pts: "points (PH_CALIBRATION st) = [p1, p2]"
    using init_success_two_points [OF assms] by blast
  show ?thesis
    using assms unfolding init_two_points [OF pts]
    by (auto simp add: max_slope_drift_def split: sum.splits if_splits)
qed

lemma compute_slope_defined:
  assumes "ph1 \<noteq> ph2" and "ideal_slope temp = Inr s"
  shows "compute_slope temp ph1 v1 ph2 v2 = Inr ((v1 - v2) / (ph2 - ph1) / s)"
  using assms ideal_slope_positive [OF assms(2)]
  by (simp add: compute_slope_def py_div_def)

text \<open>
  Claim C2, as the code has it. For two calibration points with distinct pH values and a
  reference temperature in \<open>[0, 100]\<close>, the slope and the offset are computed, and
  construction fails if and only if \<open>|slope - 1| > 0.2\<close> or
  \<open>|offset - PH_ADC_V_OFFSET| > 0.030\<close>, both comparisons strict: a slope of exactly
  1.2 with an offset drift of exactly 0.030 is accepted, a slope of 1.2001 is rejected, an
  offset drift of 0.031 is rejected. On success the object carries the computed slope and
  offset unchanged.
\<close>

theorem PHCalibration_init_validation:
  assumes pts: "points (PH_CALIBRATION st) = [p1, p2]"
    and neq: "ph p1 \<noteq> ph p2"
    and lo: "0 \<le> temperature (PH_CALIBRATION st)"
    and hi: "temperature (PH_CALIBRATION st) \<le> 100"
  shows "\<exists>sl off.
      compute_slope (temperature (PH_CALIBRATION st))
        (ph p1) (voltage p1) (ph p2) (voltage p2) = Inr sl
    \<and> compute_offset (temperature (PH_CALIBRATION st)) sl (ph p1) (voltage p1) = Inr off
    \<and> ((\<exists>e. PHCalibration_init st = Inl e) \<longleftrightarrow>
          \<bar>sl - 1\<bar> > 0.2 \<or> \<bar>off - PH_ADC_V_OFFSET st\<bar> > 0.030)
    \<and> (\<bar>sl - 1\<bar> > 0.2 \<longrightarrow> PHCalibration_init st = Inl (ElectrodeSlopeOutOfRange sl))
    \<and> (\<bar>sl - 1\<bar> \<le> 0.2 \<and> \<bar>off - PH_ADC_V_OFFSET st\<bar> > 0.030 \<longrightarrow>
          PHCalibration_init st = Inl (ElectrodeOffsetOutOfRange (off - PH_ADC_V_OFFSET st)))
    \<and> (\<bar>sl - 1\<bar> \<le> 0.2 \<and> \<bar>off - PH_ADC_V_OFFSET st\<bar> \<le> 0.030 \<longrightarrow>
          PHCalibration_init st = Inr \<lparr>slope = sl, offset = off\<rparr>)
    \<and> (sl = 1.2 \<and> \<bar>off - PH_ADC_V_OFFSET st\<bar> = 0.030 \<longrightarrow>
          PHCalibration_init st = Inr \<lparr>slope = sl, offset = off\<rparr>)
    \<and> (sl = 1.2001 \<longrightarrow> PHCalibration_init st = Inl (ElectrodeSlopeOutOfRange sl))
    \<and> (\<bar>sl - 1\<bar> \<le> 0.2 \<and> \<bar>off - PH_ADC_V_OFFSET st\<bar> = 0.031 \<longrightarrow>
          PHCalibration_init st = Inl (ElectrodeOffsetOutOfRange (off - PH_ADC_V_OFFSET st)))"
proof -
  let ?t = "temperature (PH_CALIBRATION st)"
  obtain s where s: "ideal_slope ?t = Inr s"
    using ideal_slope_in_range_pos [OF lo hi] by blast
  define sl where "sl = (voltage p1 - voltage p2) / (ph p2 - ph p1) / s"
  define off where "off = voltage p1 + sl * s * (ph p1 - 7)"
  have csl: "compute_slope ?t (ph p1) (voltage p1) (ph p2) (voltage p2) = Inr sl"
    unfolding sl_def by (rule compute_slope_defined [OF neq s])
  have coff: "compute_offset ?t sl (ph p1) (voltage p1) = Inr off"
    by (simp add: compute_offset_def s off_def)
  have init: "PHCalibration_init st =
      (if \<bar>sl - 1\<bar> > 0.2 then Inl (ElectrodeSlopeOutOfRange sl)
       else if \<bar>off - PH_ADC_V_OFFSET st\<bar> > 0.030
            then Inl (ElectrodeOffsetOutOfRange (off - PH_ADC_V_OFFSET st))
            else Inr \<lparr>slope = sl, offset = off\<rparr>)"
    by (simp add: init_two_points [OF pts] csl coff max_slope_drift_def max_v_ph7_drift_def)
  have iff: "(\<exists>e. PHCalibration_init st = Inl e) \<longleftrightarrow>
          \<bar>sl - 1\<bar> > 0.2 \<or> \<bar>off - PH_ADC_V_OFFSET st\<bar> > 0.030"
    unfolding init by simp
  have r1: "\<bar>sl - 1\<bar> > 0.2 \<longrightarrow> PHCalibration_init st = Inl (ElectrodeSlopeOutOfRange sl)"
    unfolding init by simp
  have r2: "\<bar>sl - 1\<bar> \<le> 0.2 \<and> \<bar>off - PH_ADC_V_OFFSET st\<bar> > 0.030 \<longrightarrow>
          PHCalibration_init st = Inl (ElectrodeOffsetOutOfRange (off - PH_ADC_V_OFFSET st))"
    unfolding init by simp
  have r3: "\<bar>sl - 1\<bar> \<le> 0.2 \<and> \<bar>off - PH_ADC_V_OFFSET st\<bar> \<le> 0.030 \<longrightarrow>
          PHCalibration_init st = Inr \<lparr>slope = sl, offset = off\<rparr>"
    unfolding init by simp
  have b1: "sl = 1.2 \<and> \<bar>off - PH_ADC_V_OFFSET st\<bar> = 0.030 \<longrightarrow>
          PHCalibration_init st = Inr \<lparr>slope = sl, offset = off\<rparr>"
    unfolding init by simp
  have b2: "sl = 1.2001 \<longrightarrow> PHCalibration_init st = Inl (ElectrodeSlopeOutOfRange sl)"
    unfolding init by simp
  have b3: "\<bar>sl - 1\<bar> \<le> 0.2 \<and> \<bar>off - PH_ADC_V_OFFSET st\<bar> = 0.031 \<longrightarrow>
          PHCalibration_init st = Inl (ElectrodeOffsetOutOfRange (off - PH_ADC_V_OFFSET st))"
    unfolding init by simp
  from csl coff iff r1 r2 r3 b1 b2 b3 show ?thesis by blast
qed

lemma boundary_points:
  "points (PH_CALIBRATION boundary_settings) =
     [\<lparr>ph = 7, voltage = 1.2 * (8.3144 * (25 - (- 273.15)) * 2.3026 / 96485)\<rparr>,
      \<lparr>ph = 8, voltage = 0\<rparr>]"
  by (simp add: boundary_settings_def)

lemma boundary_slope:
  "compute_slope 25 7 (1.2 * (8.3144 * (25 - (- 273.15)) * 2.3026 / 96485)) 8 0 = Inr 1.2"
  by (simp add: compute_slope_def py_div_def ideal_slope_def)

lemma boundary_offset:
  "compute_offset 25 1.2 7 (1.2 * (8.3144 * (25 - (- 273.15)) * 2.3026 / 96485))
     = Inr (1.2 * (8.3144 * (25 - (- 273.15)) * 2.3026 / 96485))"
  by (simp add: compute_offset_def ideal_slope_def)

theorem PHCalibration_init_validation_witness:
  "PHCalibration_init boundary_settings =
     Inr \<lparr>slope = 1.2, offset = 1.2 * (8.3144 * (25 - (- 273.15)) * 2.3026 / 96485)\<rparr>"
proof -
  let ?v = "1.2 * (8.3144 * (25 - (- 273.15)) * 2.3026 / 96485) :: real"
  define p1 :: calibration_point where "p1 = \<lparr>ph = 7, voltage = ?v\<rparr>"
  define p2 :: calibration_point where "p2 = \<lparr>ph = 8, voltage = 0\<rparr>"
  have pts: "points (PH_CALIBRATION boundary_settings) = [p1, p2]"
    unfolding p1_def p2_def by (rule boundary_points)
  have neq: "ph p1 \<noteq> ph p2" by (simp add: p1_def p2_def)
  have t: "temperature (PH_CALIBRATION boundary_settings) = 25"
    by (simp add: boundary_settings_def)
  have lo: "0 \<le> temperature (PH_CALIBRATION boundary_settings)" unfolding t by simp
  have hi: "temperature (PH_CALIBRATION boundary_settings) \<le> 100" unfolding t by simp
  have voff: "PH_ADC_V_OFFSET boundary_settings = ?v - 0.030"
    by (simp add: boundary_settings_def)
  from PHCalibration_init_validation [OF pts neq lo hi]
  obtain sl off where
      a: "compute_slope (temperature (PH_CALIBRATION boundary_settings))
            (ph p1) (voltage p1) (ph p2) (voltage p2) = Inr sl"
    and b: "compute_offset (temperature (PH_CALIBRATION boundary_settings)) sl
            (ph p1) (voltage p1) = Inr off"
    and c: "sl = 1.2 \<and> \<bar>off - PH_ADC_V_OFFSET boundary_settings\<bar> = 0.030 \<longrightarrow>
          PHCalibration_init boundary_settings = Inr \<lparr>slope = sl, offset = off\<rparr>"
    by blast
  have a': "compute_slope 25 7 ?v 8 0 = Inr sl"
    using a unfolding t by (simp add: p1_def p2_def)
  have sl: "sl = 1.2" using a' boundary_slope by simp
  have b': "compute_offset 25 1.2 7 ?v = Inr off"
    using b unfolding t sl by (simp add: p1_def p2_def)
  have off: "off = ?v" using b' boundary_offset by simp
  have d: "\<bar>off - PH_ADC_V_OFFSET boundary_settings\<bar> = 0.030"
    unfolding off voff by simp
  have "PHCalibration_init boundary_settings = Inr \<lparr>slope = sl, offset = off\<rparr>"
    using c sl d by blast
  then show ?thesis unfolding sl off .
qed

text \<open>
  The characterisation does not extend to every pair of points. With two points of equal
  pH and the reference temperature 25, construction fails although no slope exists that
  either comparison could be made on: \<^verbatim>\<open>compute_slope\<close> itself ends in
  \<^verbatim>\<open>ZeroDivisionError\<close>, and so does the constructor.
\<close>

theorem PHCalibration_init_validation_counterexample:
  "0 \<le> temperature (PH_CALIBRATION equal_ph_settings)
   \<and> temperature (PH_CALIBRATION equal_ph_settings) \<le> 100
   \<and> points (PH_CALIBRATION equal_ph_settings)
         = [\<lparr>ph = 7, voltage = 1.3\<rparr>, \<lparr>ph = 7, voltage = 1.2\<rparr>]
   \<and> compute_slope (temperature (PH_CALIBRATION equal_ph_settings)) 7 1.3 7 1.2
         = Inl ZeroDivisionError
   \<and> PHCalibration_init equal_ph_settings = Inl ZeroDivisionError"
proof -
  have t: "temperature (PH_CALIBRATION equal_ph_settings) = 25"
    by (simp add: equal_ph_settings_def)
  have pts: "points (PH_CALIBRATION equal_ph_settings)
               = [\<lparr>ph = 7, voltage = 1.3\<rparr>, \<lparr>ph = 7, voltage = 1.2\<rparr>]"
    by (simp add: equal_ph_settings_def)
  have sl: "compute_slope (temperature (PH_CALIBRATION equal_ph_settings)) 7 1.3 7 1.2
              = Inl ZeroDivisionError"
    by (simp add: compute_slope_def py_div_def)
  have init: "PHCalibration_init equal_ph_settings = Inl ZeroDivisionError"
    using sl by (simp add: init_two_points [OF pts])
  have rng: "0 \<le> temperature (PH_CALIBRATION equal_ph_settings)
      \<and> temperature (PH_CALIBRATION equal_ph_settings) \<le> 100"
    unfolding t by simp
  from rng pts sl init show ?thesis by blast
qed

text \<open>
  Claim C9. The slope computation divides by \<open>ph2 - ph1\<close> without a guard: whenever the
  two calibration points have equal pH values, whatever the reference temperature,
  construction ends in \<^verbatim>\<open>ZeroDivisionError\<close>, which is none of the errors the
  constructor raises itself, and no object is built.
\<close>

theorem PHCalibration_init_equal_ph_zero_division:
  assumes "points (PH_CALIBRATION st) = [p1, p2]" and "ph p1 = ph p2"
  shows "PHCalibration_init st = Inl ZeroDivisionError
    \<and> PHCalibration_init st \<noteq> Inl TemperatureOutOfRange
    \<and> PHCalibration_init st \<noteq> Inl UnsupportedCalibrationArity
    \<and> PHCalibration_init st \<noteq> Inl (ElectrodeSlopeOutOfRange x)
    \<and> PHCalibration_init st \<noteq> Inl (ElectrodeOffsetOutOfRange y)
    \<and> PHCalibration_init st \<noteq> Inr cal"
  using assms by (simp add: init_two_points compute_slope_def py_div_def)

theorem PHCalibration_init_equal_ph_zero_division_witness:
  "0 \<le> temperature (PH_CALIBRATION equal_ph_settings)
   \<and> temperature (PH_CALIBRATION equal_ph_settings) \<le> 100
   \<and> PHCalibration_init equal_ph_settings = Inl ZeroDivisionError"
proof -
  have pts: "points (PH_CALIBRATION equal_ph_settings)
               = [\<lparr>ph = 7, voltage = 1.3\<rparr>, \<lparr>ph = 7, voltage = 1.2\<rparr>]"
    by (simp add: equal_ph_settings_def)
  have eq: "ph \<lparr>ph = 7, voltage = 1.3\<rparr> = ph \<lparr>ph = 7, voltage = 1.2\<rparr>"
    by simp
  have t: "temperature (PH_CALIBRATION equal_ph_settings) = 25"
    by (simp add: equal_ph_settings_def)
  from PHCalibration_init_equal_ph_zero_division [OF pts eq]
  have "PHCalibration_init equal_ph_settings = Inl ZeroDivisionError" by blast
  then show ?thesis unfolding t by simp
qed

lemma compute_ph_no_zero_division:
  assumes "sl \<noteq> 0"
  shows "compute_ph temp off sl v \<noteq> Inl ZeroDivisionError"
proof (cases "ideal_slope temp")
  case (Inl e)
  then have "e = TemperatureOutOfRange"
    by (auto simp add: ideal_slope_def split: if_splits)
  with Inl show ?thesis by (simp add: compute_ph_def)
next
  case (Inr s)
  then have "0 < s" by (rule ideal_slope_positive)
  with assms have "sl * s \<noteq> 0" by simp
  with Inr show ?thesis by (simp add: compute_ph_def py_div_def)
qed

lemma compute_ph_in_range:
  assumes "sl \<noteq> 0" and "ideal_slope temp = Inr s"
  shows "compute_ph temp off sl v = Inr (7 + (off - v) / (sl * s))"
proof -
  have "0 < s" using assms(2) by (rule ideal_slope_positive)
  with assms(1) have "sl * s \<noteq> 0" by simp
  with assms(2) show ?thesis by (simp add: compute_ph_def py_div_def)
qed

text \<open>
  Claim C10. Every successfully constructed calibration has its slope in \<open>[0.8, 1.2]\<close>,
  hence nonzero; \<^verbatim>\<open>ideal_slope\<close> is strictly positive on \<open>[0, 100]\<close>; so
  \<^verbatim>\<open>compute_ph(temp, v)\<close> of the object returns
  \<open>7 + (offset - v) / (slope * ideal_slope(temp))\<close> for every in-range temperature and
  every voltage, and never ends in a division by zero.
\<close>

theorem constructed_model_division_safe:
  assumes "PHCalibration_init st = Inr cal"
  shows "0.8 \<le> slope cal \<and> slope cal \<le> 1.2 \<and> slope cal \<noteq> 0
    \<and> (\<forall>temp. 0 \<le> temp \<and> temp \<le> 100 \<longrightarrow>
          (\<exists>s. ideal_slope temp = Inr s \<and> 0 < s
             \<and> (\<forall>v. PHCalibration_compute_ph cal temp v
                       = Inr (7 + (offset cal - v) / (slope cal * s)))))
    \<and> (\<forall>temp v. PHCalibration_compute_ph cal temp v \<noteq> Inl ZeroDivisionError)"
proof -
  have drift: "\<bar>slope cal - 1\<bar> \<le> 0.2"
    using assms by (rule init_success_slope)
  have lo: "0.8 \<le> slope cal" using drift by linarith
  have hi: "slope cal \<le> 1.2" using drift by linarith
  have nz: "slope cal \<noteq> 0" using lo by linarith
  have inr: "\<forall>temp. 0 \<le> temp \<and> temp \<le> 100 \<longrightarrow>
          (\<exists>s. ideal_slope temp = Inr s \<and> 0 < s
             \<and> (\<forall>v. PHCalibration_compute_ph cal temp v
                       = Inr (7 + (offset cal - v) / (slope cal * s))))"
  proof (intro allI impI)
    fix temp :: real
    assume "0 \<le> temp \<and> temp \<le> 100"
    then obtain s where s: "ideal_slope temp = Inr s" and pos: "0 < s"
      using ideal_slope_in_range_pos by blast
    have "\<forall>v. PHCalibration_compute_ph cal temp v
                 = Inr (7 + (offset cal - v) / (slope cal * s))"
      by (simp add: PHCalibration_compute_ph_def compute_ph_in_range [OF nz s])
    with s pos show "\<exists>s. ideal_slope temp = Inr s \<and> 0 < s
             \<and> (\<forall>v. PHCalibration_compute_ph cal temp v
                       = Inr (7 + (offset cal - v) / (slope cal * s)))"
      by blast
  qed
  have nozd: "\<forall>temp v. PHCalibration_compute_ph cal temp v \<noteq> Inl ZeroDivisionError"
    by (simp add: PHCalibration_compute_ph_def compute_ph_no_zero_division [OF nz])
  from lo hi nz inr nozd show ?thesis by blast
qed

lemma example_settings_init:
  "PHCalibration_init example_settings =
     Inr \<lparr>slope = (1.418 - 1.224) / (7 - 4) / (8.3144 * (21.2 - (- 273.15)) * 2.3026 / 96485),
          offset = 1.224\<rparr>"
  by (simp add: PHCalibration_init_def example_settings_def get_item_def compute_slope_def
      compute_offset_def py_div_def ideal_slope_def max_slope_drift_def max_v_ph7_drift_def)

theorem constructed_model_division_safe_witness:
  "PHCalibration_init example_settings =
     Inr \<lparr>slope = (1.418 - 1.224) / (7 - 4) / (8.3144 * (21.2 - (- 273.15)) * 2.3026 / 96485),
          offset = 1.224\<rparr>
   \<and> PHCalibration_compute_ph
        \<lparr>slope = (1.418 - 1.224) / (7 - 4) / (8.3144 * (21.2 - (- 273.15)) * 2.3026 / 96485),
         offset = 1.224\<rparr> 21.2 1.224 = Inr 7"
proof -
  let ?cal = "\<lparr>slope = (1.418 - 1.224) / (7 - 4)
                         / (8.3144 * (21.2 - (- 273.15)) * 2.3026 / 96485),
                offset = 1.224\<rparr> :: PHCalibration"
  have ex: "\<forall>temp. 0 \<le> temp \<and> temp \<le> 100 \<longrightarrow>
          (\<exists>s. ideal_slope temp = Inr s \<and> 0 < s
             \<and> (\<forall>v. PHCalibration_compute_ph ?cal temp v
                       = Inr (7 + (offset ?cal - v) / (slope ?cal * s))))"
    using constructed_model_division_safe [OF example_settings_init] by blast
  have rng: "(0::real) \<le> 21.2 \<and> (21.2::real) \<le> 100" by simp
  from ex rng obtain s where
    "PHCalibration_compute_ph ?cal 21.2 1.224 = Inr (7 + (offset ?cal - 1.224) / (slope ?cal * s))"
    by blast
  then have "PHCalibration_compute_ph ?cal 21.2 1.224 = Inr 7" by simp
  with example_settings_init show ?thesis by blast
qed

section \<open>Properties of ADCInterface\<close>

lemma read_block_two:
  assumes "device bus (transactions bus) = Some reply"
  shows "read_i2c_block_data bus addr cmd 2
           = Inr ([reply 0, reply 1], bus\<lparr>transactions := Suc (transactions bus)\<rparr>)"
proof -
  have "[0..<2] = [0, Suc 0]" by (simp add: upt_rec)
  then have "map reply [0..<2] = [reply 0, reply 1]" by simp
  with assms show ?thesis by (simp add: read_i2c_block_data_def)
qed

lemma priv_get_value_some:
  assumes "device bus (transactions bus) = Some reply"
  shows "priv_get_value st bus
           = Inr (reading_value reply, bus\<lparr>transactions := Suc (transactions bus)\<rparr>)"
  by (simp add: priv_get_value_def read_block_two [OF assms] get_item_def reading_value_def)

lemma priv_get_value_none:
  assumes "device bus (transactions bus) = None"
  shows "priv_get_value st bus = Inl BusReadFailure"
  using assms by (simp add: priv_get_value_def read_i2c_block_data_def)

lemma reading_value_eq: "reading_value reply = 256 * uint (reply 0) + uint (reply 1)"
  by (simp add: reading_value_def push_bit_eq_mult)

lemma uint8_bounds: "0 \<le> uint (b :: 8 word) \<and> uint b < 256"
  using uint_bounded [of b] by simp

lemma reading_value_range: "0 \<le> reading_value reply \<and> reading_value reply < 65536"
  using uint8_bounds [of "reply 0"] uint8_bounds [of "reply 1"]
  unfolding reading_value_eq by linarith

lemma reading_value_12bit: "reading_value reply < 4096 \<longleftrightarrow> uint (reply 0) < 16"
  using uint8_bounds [of "reply 0"] uint8_bounds [of "reply 1"]
  unfolding reading_value_eq by linarith

text \<open>
  Claim C7, as the code has it. \<^verbatim>\<open>_get_value\<close> reads exactly 2 bytes in one bus
  transaction and composes them big-endian as \<open>(byte0 << 8) + byte1 = 256 * byte0 + byte1\<close>.
  No bit of the first byte is masked: the result is an unsigned 16-bit value, at least 0
  and less than 65536, and it is less than 4096 exactly when the upper 4 bits of the
  first byte are zero (\<open>byte0 < 16\<close>).
\<close>

theorem priv_get_value_big_endian:
  assumes "device bus (transactions bus) = Some reply"
  shows "read_i2c_block_data bus (PH_ADC_I2C_ADDR st) 0 2
           = Inr ([reply 0, reply 1], bus\<lparr>transactions := Suc (transactions bus)\<rparr>)
    \<and> priv_get_value st bus
           = Inr (push_bit 8 (uint (reply 0)) + uint (reply 1),
                  bus\<lparr>transactions := Suc (transactions bus)\<rparr>)
    \<and> push_bit 8 (uint (reply 0)) + uint (reply 1) = 256 * uint (reply 0) + uint (reply 1)
    \<and> 0 \<le> push_bit 8 (uint (reply 0)) + uint (reply 1)
    \<and> push_bit 8 (uint (reply 0)) + uint (reply 1) < 65536
    \<and> (push_bit 8 (uint (reply 0)) + uint (reply 1) < 4096 \<longleftrightarrow> uint (reply 0) < 16)"
  using read_block_two [OF assms] priv_get_value_some [OF assms, of st]
    reading_value_eq [of reply] reading_value_range [of reply] reading_value_12bit [of reply]
  unfolding reading_value_def by blast

lemma constant_bus_device:
  "device (constant_bus b0 b1) (transactions (constant_bus b0 b1)) = Some (constant_reply b0 b1)"
  by (simp add: constant_bus_def)

theorem priv_get_value_big_endian_witness:
  "priv_get_value example_settings (constant_bus 0x08 0x00)
     = Inr (2048, (constant_bus 0x08 0x00)\<lparr>transactions := Suc 0\<rparr>)"
proof -
  have dev: "device (constant_bus 0x08 0x00) (transactions (constant_bus 0x08 0x00))
               = Some (constant_reply 0x08 0x00)"
    by (rule constant_bus_device)
  have "priv_get_value example_settings (constant_bus 0x08 0x00)
     = Inr (push_bit 8 (uint (constant_reply 0x08 0x00 0)) + uint (constant_reply 0x08 0x00 1),
            (constant_bus 0x08 0x00)\<lparr>transactions := Suc (transactions (constant_bus 0x08 0x00))\<rparr>)"
    using priv_get_value_big_endian [OF dev, where st = example_settings]
    by blast
  moreover have "push_bit 8 (uint (constant_reply 0x08 0x00 0)) + uint (constant_reply 0x08 0x00 1)
                   = (2048 :: int)"
    by (simp add: constant_reply_def)
  moreover have "transactions (constant_bus 0x08 0x00) = 0"
    by (simp add: constant_bus_def)
  ultimately show ?thesis by simp
qed

text \<open>
  The bytes \<^verbatim>\<open>0xFF 0xFF\<close> compose to 65535, which is not below 4096: the result of
  \<^verbatim>\<open>_get_value\<close> is not a 12-bit value for every pair of bus bytes.
\<close>

theorem priv_get_value_12bit_counterexample:
  "priv_get_value example_settings (constant_bus 0xFF 0xFF)
     = Inr (65535, (constant_bus 0xFF 0xFF)\<lparr>transactions := Suc 0\<rparr>)
   \<and> \<not> (65535 :: int) < 4096"
proof -
  have dev: "device (constant_bus 0xFF 0xFF) (transactions (constant_bus 0xFF 0xFF))
               = Some (constant_reply 0xFF 0xFF)"
    by (rule constant_bus_device)
  have v: "reading_value (constant_reply 0xFF 0xFF) = 65535"
    by (simp add: reading_value_def constant_reply_def)
  have t: "transactions (constant_bus 0xFF 0xFF) = 0"
    by (simp add: constant_bus_def)
  show ?thesis
    unfolding priv_get_value_some [OF dev] v t by simp
qed

lemma get_values_loop_success:
  "get_values_loop st n vals bus = Inr (vals', bus') \<Longrightarrow>
   length vals' = length vals + n \<and> transactions bus' = transactions bus + n
   \<and> device bus' = device bus"
proof (induction n arbitrary: vals bus)
  case 0
  then show ?case by simp
next
  case (Suc n)
  show ?case
  proof (cases "device bus (transactions bus)")
    case None
    with Suc.prems show ?thesis by (simp add: priv_get_value_none)
  next
    case (Some reply)
    let ?b = "bus\<lparr>transactions := Suc (transactions bus)\<rparr>"
    from Suc.prems have "get_values_loop st n (vals @ [reading_value reply]) ?b = Inr (vals', bus')"
      by (simp add: priv_get_value_some [OF Some])
    from Suc.IH [OF this] show ?thesis by simp
  qed
qed

lemma get_values_loop_constant:
  "(\<forall>k<n. \<exists>reply. device bus (transactions bus + k) = Some reply \<and> reading_value reply = c) \<Longrightarrow>
   get_values_loop st n vals bus
     = Inr (vals @ replicate n c, bus\<lparr>transactions := transactions bus + n\<rparr>)"
proof (induction n arbitrary: vals bus)
  case 0
  then show ?case by simp
next
  case (Suc n)
  from Suc.prems obtain reply where r: "device bus (transactions bus) = Some reply"
    and c: "reading_value reply = c"
    by force
  let ?b = "bus\<lparr>transactions := Suc (transactions bus)\<rparr>"
  have "\<forall>k<n. \<exists>reply. device ?b (transactions ?b + k) = Some reply \<and> reading_value reply = c"
  proof (intro allI impI)
    fix k assume "k < n"
    then have "Suc k < Suc n" by simp
    with Suc.prems obtain reply' where "device bus (transactions bus + Suc k) = Some reply'"
      and "reading_value reply' = c" by blast
    then show "\<exists>reply. device ?b (transactions ?b + k) = Some reply \<and> reading_value reply = c"
      by simp
  qed
  from Suc.IH [OF this, of "vals @ [c]"]
  show ?case by (simp add: priv_get_value_some [OF r] c replicate_app_Cons_same)
qed

lemma get_values_loop_failure:
  "(\<exists>k<n. device bus (transactions bus + k) = None) \<Longrightarrow>
   get_values_loop st n vals bus = Inl BusReadFailure"
proof (induction n arbitrary: vals bus)
  case 0
  then show ?case by simp
next
  case (Suc n)
  show ?case
  proof (cases "device bus (transactions bus)")
    case None
    then show ?thesis by (simp add: priv_get_value_none)
  next
    case (Some reply)
    let ?b = "bus\<lparr>transactions := Suc (transactions bus)\<rparr>"
    from Suc.prems obtain k where k: "k < Suc n" and none: "device bus (transactions bus + k) = None"
      by blast
    from Some none have "k \<noteq> 0" by (cases k) auto
    then obtain j where j: "k = Suc j" by (cases k) auto
    with k none have "\<exists>k<n. device ?b (transactions ?b + k) = None"
      by auto
    from Suc.IH [OF this] show ?thesis by (simp add: priv_get_value_some [OF Some])
  qed
qed

lemma mean_replicate:
  "0 < n \<Longrightarrow> mean (replicate n c) = Inr (real_of_int c)"
  by (simp add: mean_def sum_list_replicate)

lemma pstdev_replicate:
  "0 < n \<Longrightarrow> pstdev (replicate n c) = Inr 0"
  by (simp add: pstdev_def mean_replicate sum_list_replicate)

lemma value_to_voltage_eq: "value_to_voltage st v = v * PH_ADC_V_REF st / 4096"
  by (simp add: value_to_voltage_def adc_bits_def)

text \<open>
  Claim C8. When each of the 256 raw reads of a batch returns 2048,
  \<^verbatim>\<open>get_voltage_with_stat\<close> yields a deviation of 0 (in raw units and in volts) and a
  mean of 2048, converted to \<open>2048 * PH_ADC_V_REF / 4096\<close> volts. A batch that is
  returned always holds exactly \<^verbatim>\<open>filter_samples = 256\<close> readings taken in 256 bus
  transactions, and a bus failure anywhere in the batch fails the whole call: there is no
  partial batch.
\<close>

theorem constant_batch_statistics:
  assumes "\<forall>k<256. \<exists>reply. device bus (transactions bus + k) = Some reply
             \<and> push_bit 8 (uint (reply 0)) + uint (reply 1) = 2048"
  shows "get_voltage_with_stat st bus
           = Inr (\<lparr>stat_value = 2048, stat_value_dev = 0,
                   stat_voltage = Some (value_to_voltage st 2048),
                   stat_voltage_dev = Some 0\<rparr>,
                  bus\<lparr>transactions := transactions bus + 256\<rparr>)
    \<and> value_to_voltage st 2048 = 2048 * PH_ADC_V_REF st / 4096
    \<and> priv_get_values st bus
           = Inr (replicate 256 2048, bus\<lparr>transactions := transactions bus + 256\<rparr>)
    \<and> (\<forall>b vals b'. priv_get_values st b = Inr (vals, b') \<longrightarrow>
           length vals = 256 \<and> transactions b' = transactions b + 256)
    \<and> (\<forall>b :: SMBus. (\<exists>k<256. device b (transactions b + k) = None) \<longrightarrow>
           get_voltage_with_stat st b = Inl BusReadFailure)"
proof -
  have c: "\<forall>k<256. \<exists>reply. device bus (transactions bus + k) = Some reply
             \<and> reading_value reply = 2048"
    using assms unfolding reading_value_def .
  have vals: "priv_get_values st bus
           = Inr (replicate 256 2048, bus\<lparr>transactions := transactions bus + 256\<rparr>)"
    unfolding priv_get_values_def filter_samples_def
    using get_values_loop_constant [OF c, of st "[]"] by simp
  have m: "mean (replicate 256 2048) = Inr 2048"
    using mean_replicate [of 256 2048] by simp
  have d: "pstdev (replicate 256 2048) = Inr 0"
    using pstdev_replicate [of 256 2048] by simp
  have vs: "get_value_with_stat st bus
           = Inr (\<lparr>stat_value = 2048, stat_value_dev = 0,
                   stat_voltage = None, stat_voltage_dev = None\<rparr>,
                  bus\<lparr>transactions := transactions bus + 256\<rparr>)"
    by (simp add: get_value_with_stat_def vals m d)
  have z: "value_to_voltage st 0 = 0" by (simp add: value_to_voltage_def)
  have p1: "get_voltage_with_stat st bus
           = Inr (\<lparr>stat_value = 2048, stat_value_dev = 0,
                   stat_voltage = Some (value_to_voltage st 2048),
                   stat_voltage_dev = Some 0\<rparr>,
                  bus\<lparr>transactions := transactions bus + 256\<rparr>)"
    by (simp add: get_voltage_with_stat_def vs z Let_def)
  have p2: "value_to_voltage st 2048 = 2048 * PH_ADC_V_REF st / 4096"
    by (rule value_to_voltage_eq)
  have p4: "\<forall>b vals b'. priv_get_values st b = Inr (vals, b') \<longrightarrow>
           length vals = 256 \<and> transactions b' = transactions b + 256"
    unfolding priv_get_values_def filter_samples_def
    using get_values_loop_success [of st 256 "[]"] by auto
  have p5: "\<forall>b :: SMBus. (\<exists>k<256. device b (transactions b + k) = None) \<longrightarrow>
           get_voltage_with_stat st b = Inl BusReadFailure"
  proof (intro allI impI)
    fix b :: SMBus assume "\<exists>k<256. device b (transactions b + k) = None"
    then have "priv_get_values st b = Inl BusReadFailure"
      unfolding priv_get_values_def filter_samples_def
      by (rule get_values_loop_failure)
    then show "get_voltage_with_stat st b = Inl BusReadFailure"
      by (simp add: get_voltage_with_stat_def get_value_with_stat_def)
  qed
  from p1 p2 vals p4 p5 show ?thesis by blast
qed

theorem constant_batch_statistics_witness:
  "get_voltage_with_stat example_settings (constant_bus 0x08 0x00)
     = Inr (\<lparr>stat_value = 2048, stat_value_dev = 0,
             stat_voltage = Some 1.25, stat_voltage_dev = Some 0\<rparr>,
            (constant_bus 0x08 0x00)\<lparr>transactions := 256\<rparr>)"
proof -
  have h: "\<forall>k<256. \<exists>reply.
      device (constant_bus 0x08 0x00) (transactions (constant_bus 0x08 0x00) + k) = Some reply
      \<and> push_bit 8 (uint (reply 0)) + uint (reply 1) = 2048"
    by (simp add: constant_bus_def constant_reply_def)
  have t: "transactions (constant_bus 0x08 0x00) = 0"
    by (simp add: constant_bus_def)
  have v: "value_to_voltage example_settings 2048 = 1.25"
    by (simp add: value_to_voltage_eq example_settings_def)
  from constant_batch_statistics [OF h, where st = example_settings]
  have "get_voltage_with_stat example_settings (constant_bus 0x08 0x00)
           = Inr (\<lparr>stat_value = 2048, stat_value_dev = 0,
                   stat_voltage = Some (value_to_voltage example_settings 2048),
                   stat_voltage_dev = Some 0\<rparr>,
                  (constant_bus 0x08 0x00)\<lparr>transactions :=
                     transactions (constant_bus 0x08 0x00) + 256\<rparr>)"
    by blast
  then show ?thesis unfolding t v by simp
qed

section \<open>Properties of PumpInterface\<close>

lemma max_step_frequency_value: "max_step_frequency = 800"
  by (simp add: max_step_frequency_def max_rpm_def step_angle_def microsteps_def)

lemma trace_step_loop:
  "trace (step_loop st n g) = trace g @ concat (replicate n (step_pulse st))"
  by (induction n arbitrary: g)
     (simp_all add: GPIO_output_def time_sleep_def step_pulse_def)

lemma level_step_loop:
  "level (step_loop st n g) =
     (if n = 0 then level g else (level g)(PUMP_GPIO_STEP st := False))"
  by (induction n arbitrary: g)
     (auto simp add: GPIO_output_def time_sleep_def)

lemma trace_step:
  "trace (step st count g) =
     trace g @ [Output (PUMP_GPIO_SLEEP st) True, Sleep wake_up_time]
       @ concat (replicate (nat (py_int count)) (step_pulse st))
       @ [Output (PUMP_GPIO_SLEEP st) False]"
  by (simp add: step_def Let_def trace_step_loop GPIO_output_def time_sleep_def)

lemma emitted_pump:
  "emitted g (pump st self volume g) =
     [Output (PUMP_GPIO_SLEEP st) True, Sleep wake_up_time]
       @ concat (replicate (nat (py_int (volume * steps_per_litre self))) (step_pulse st))
       @ [Output (PUMP_GPIO_SLEEP st) False]"
  by (simp add: emitted_def pump_def trace_step)

lemma pulses_emitted_append:
  "pulses_emitted st (xs @ ys) = pulses_emitted st xs + pulses_emitted st ys"
  by (simp add: pulses_emitted_def)

lemma pulses_emitted_step_pulse: "pulses_emitted st (step_pulse st) = 1"
  by (simp add: pulses_emitted_def step_pulse_def)

lemma pulses_emitted_Nil: "pulses_emitted st [] = 0"
  by (simp add: pulses_emitted_def)

lemma pulses_emitted_pulses:
  "pulses_emitted st (concat (replicate n (step_pulse st))) = n"
  by (induction n)
     (simp_all add: pulses_emitted_Nil pulses_emitted_append pulses_emitted_step_pulse)

lemma pulses_emitted_pump:
  assumes "PUMP_GPIO_SLEEP st \<noteq> PUMP_GPIO_STEP st"
  shows "pulses_emitted st (emitted g (pump st self volume g))
           = nat (py_int (volume * steps_per_litre self))"
proof -
  have a: "pulses_emitted st [Output (PUMP_GPIO_SLEEP st) True, Sleep wake_up_time] = 0"
    using assms by (simp add: pulses_emitted_def)
  have b: "pulses_emitted st [Output (PUMP_GPIO_SLEEP st) False] = 0"
    by (simp add: pulses_emitted_def)
  show ?thesis
    unfolding emitted_pump pulses_emitted_append pulses_emitted_pulses a b by simp
qed

lemma py_int_nonneg: "0 \<le> x \<Longrightarrow> py_int x = \<lfloor>x\<rfloor>"
  by (simp add: py_int_def)

lemma py_int_neg: "x < 0 \<Longrightarrow> py_int x = \<lceil>x\<rceil>"
  by (simp add: py_int_def)


lemma example_pump_steps: "steps_per_litre example_pump = 1050"
  by (simp add: example_pump_def PumpInterface_init_def example_settings_def)

lemma example_pins:
  "PUMP_GPIO_SLEEP example_settings = 17 \<and> PUMP_GPIO_STEP example_settings = 27"
  by (simp add: example_settings_def)

lemma example_pins_distinct:
  "PUMP_GPIO_SLEEP example_settings \<noteq> PUMP_GPIO_STEP example_settings"
  by (simp add: example_settings_def)

lemma example_gpio_idle: "idle example_settings example_gpio"
  by (simp add: idle_def example_gpio_def PumpInterface_init_def GPIO_output_def)

text \<open>
  Claim C1, as the code has it. \<^verbatim>\<open>pump(volume)\<close> converts the volume to a step
  count with \<^verbatim>\<open>int(volume * steps_per_litre)\<close>, which truncates towards zero and
  does not round: the number of step pulses emitted is the floor of the product when the
  product is not negative, and zero when it is negative. With 1050 steps per unit volume
  and a volume of 0.001 exactly one pulse is emitted, which is also \<open>round(1.05)\<close>.
\<close>

theorem pump_step_count:
  assumes "PUMP_GPIO_SLEEP st \<noteq> PUMP_GPIO_STEP st"
  shows "pulses_emitted st (emitted g (pump st self volume g))
           = nat (py_int (volume * steps_per_litre self))
    \<and> (0 \<le> volume * steps_per_litre self \<longrightarrow>
          int (pulses_emitted st (emitted g (pump st self volume g)))
            = \<lfloor>volume * steps_per_litre self\<rfloor>)
    \<and> (volume * steps_per_litre self < 0 \<longrightarrow>
          pulses_emitted st (emitted g (pump st self volume g)) = 0)
    \<and> (steps_per_litre self = 1050 \<and> volume = 0.001 \<longrightarrow>
          pulses_emitted st (emitted g (pump st self volume g)) = 1
          \<and> int (pulses_emitted st (emitted g (pump st self volume g))) = round (1.05 :: real))"
proof -
  let ?n = "pulses_emitted st (emitted g (pump st self volume g))"
  have n: "?n = nat (py_int (volume * steps_per_litre self))"
    using assms by (rule pulses_emitted_pump)
  have pos: "0 \<le> volume * steps_per_litre self \<longrightarrow> int ?n = \<lfloor>volume * steps_per_litre self\<rfloor>"
    unfolding n by (simp add: py_int_nonneg)
  have neg: "volume * steps_per_litre self < 0 \<longrightarrow> ?n = 0"
  proof
    assume lt: "volume * steps_per_litre self < 0"
    then have "\<lceil>volume * steps_per_litre self\<rceil> \<le> 0" by (simp add: ceiling_le_iff)
    then show "?n = 0" unfolding n by (simp add: py_int_neg [OF lt])
  qed
  have ex: "steps_per_litre self = 1050 \<and> volume = 0.001 \<longrightarrow>
          ?n = 1 \<and> int ?n = round (1.05 :: real)"
  proof
    assume a: "steps_per_litre self = 1050 \<and> volume = 0.001"
    from a have spl: "steps_per_litre self = 1050" and vol: "volume = 0.001" by blast+
    have k: "nat (py_int (0.001 * 1050)) = 1" by (simp add: py_int_def)
    have one: "?n = 1" using n k unfolding spl vol by (rule trans)
    have "round (1.05 :: real) = 1" by (simp add: round_def)
    with one show "?n = 1 \<and> int ?n = round (1.05 :: real)" by simp
  qed
  from n pos neg ex show ?thesis by blast
qed

theorem pump_step_count_witness:
  "pulses_emitted example_settings
     (emitted example_gpio (pump example_settings example_pump 0.001 example_gpio)) = 1"
proof -
  have "steps_per_litre example_pump = 1050 \<and> (0.001 :: real) = 0.001"
    using example_pump_steps by simp
  with pump_step_count [OF example_pins_distinct, of example_gpio example_pump "0.001"]
  show ?thesis by blast
qed

text \<open>
  A volume of 0.0016 at 1050 steps per unit volume asks for 1.68 steps: one pulse is
  emitted, while rounding to the nearest integer gives 2.
\<close>

theorem pump_rounding_counterexample:
  "pulses_emitted example_settings
     (emitted example_gpio (pump example_settings example_pump 0.0016 example_gpio)) = 1
   \<and> round (0.0016 * steps_per_litre example_pump) = 2"
proof -
  have a: "nat (py_int (0.0016 * 1050)) = 1" by (simp add: py_int_def)
  have b: "round (0.0016 * 1050 :: real) = 2" by (simp add: round_def)
  show ?thesis
    unfolding pulses_emitted_pump [OF example_pins_distinct] example_pump_steps a b by simp
qed

text \<open>
  Claim C5. The calls added by \<^verbatim>\<open>pump\<close> are the wake-up, then for every step the
  step line set high, a hold of \<open>0.5 / max_step_frequency\<close>, the step line set low and
  a hold of the same duration, then the sleep line released; \<open>max_step_frequency\<close> is
  \<open>(max_rpm / 60) * (360 / step_angle) * microsteps\<close>, and no hold is shorter than
  \<open>0.5 / max_step_frequency\<close>.
\<close>

theorem step_pulse_timing:
  "emitted g (pump st self volume g) =
     [Output (PUMP_GPIO_SLEEP st) True, Sleep wake_up_time]
       @ concat (replicate (nat (py_int (volume * steps_per_litre self)))
           [Output (PUMP_GPIO_STEP st) True, Sleep (0.5 / max_step_frequency),
            Output (PUMP_GPIO_STEP st) False, Sleep (0.5 / max_step_frequency)])
       @ [Output (PUMP_GPIO_SLEEP st) False]
   \<and> max_step_frequency
        = (real_of_int max_rpm / 60) * (360 / step_angle) * real_of_int microsteps
   \<and> 0 < max_step_frequency
   \<and> (\<forall>d. Sleep d \<in> set (emitted g (pump st self volume g)) \<longrightarrow>
          0.5 / max_step_frequency \<le> d)"
proof -
  have tr: "emitted g (pump st self volume g) =
     [Output (PUMP_GPIO_SLEEP st) True, Sleep wake_up_time]
       @ concat (replicate (nat (py_int (volume * steps_per_litre self)))
           [Output (PUMP_GPIO_STEP st) True, Sleep (0.5 / max_step_frequency),
            Output (PUMP_GPIO_STEP st) False, Sleep (0.5 / max_step_frequency)])
       @ [Output (PUMP_GPIO_SLEEP st) False]"
    using emitted_pump [of g st self volume] unfolding step_pulse_def .
  have f: "max_step_frequency
        = (real_of_int max_rpm / 60) * (360 / step_angle) * real_of_int microsteps"
    by (simp add: max_step_frequency_def Let_def)
  have pos: "0 < max_step_frequency" by (simp add: max_step_frequency_value)
  have wake: "0.5 / max_step_frequency \<le> wake_up_time"
    by (simp add: max_step_frequency_value wake_up_time_def)
  have hold: "\<forall>d. Sleep d \<in> set (emitted g (pump st self volume g)) \<longrightarrow>
          0.5 / max_step_frequency \<le> d"
  proof (intro allI impI)
    fix d assume "Sleep d \<in> set (emitted g (pump st self volume g))"
    then have "d = wake_up_time \<or> d = 0.5 / max_step_frequency"
      unfolding tr by (auto split: if_splits)
    with wake show "0.5 / max_step_frequency \<le> d" by auto
  qed
  from tr f pos hold show ?thesis by blast
qed

theorem step_pulse_timing_witness:
  "emitted example_gpio (pump example_settings example_pump 0.001 example_gpio) =
     [Output 17 True, Sleep 0.001,
      Output 27 True, Sleep 0.000625, Output 27 False, Sleep 0.000625,
      Output 17 False]
   \<and> (0.000625 :: real) \<le> 0.001"
proof -
  let ?e = "emitted example_gpio (pump example_settings example_pump 0.001 example_gpio)"
  have n: "nat (py_int (0.001 * steps_per_litre example_pump)) = Suc 0"
    unfolding example_pump_steps by (simp add: py_int_def)
  have half: "0.5 / max_step_frequency = 0.000625"
    by (simp add: max_step_frequency_value)
  have tr: "?e = [Output 17 True, Sleep 0.001,
      Output 27 True, Sleep 0.000625, Output 27 False, Sleep 0.000625,
      Output 17 False]"
    using step_pulse_timing [of example_gpio example_settings example_pump "0.001"]
    unfolding n half by (simp add: example_pins wake_up_time_def)
  have "\<forall>d. Sleep d \<in> set ?e \<longrightarrow> 0.5 / max_step_frequency \<le> d"
    using step_pulse_timing [of example_gpio example_settings example_pump "0.001"] by blast
  moreover have "Sleep 0.001 \<in> set ?e" unfolding tr by simp
  ultimately have "0.5 / max_step_frequency \<le> (0.001 :: real)" by blast
  then have "(0.000625 :: real) \<le> 0.001" unfolding half .
  with tr show ?thesis by blast
qed

text \<open>
  Claim C6. \<^verbatim>\<open>pump(0)\<close> emits no step pulse (the step line is never set high) but
  still runs the wake and sleep cycle: it sets the sleep line, waits for
  \<^verbatim>\<open>wake_up_time\<close>, and releases the sleep line, ending with both lines low.
\<close>

theorem pump_zero_wake_sleep_cycle:
  assumes "PUMP_GPIO_SLEEP st \<noteq> PUMP_GPIO_STEP st" and "idle st g"
  shows "emitted g (pump st self 0 g) =
           [Output (PUMP_GPIO_SLEEP st) True, Sleep wake_up_time,
            Output (PUMP_GPIO_SLEEP st) False]
    \<and> pulses_emitted st (emitted g (pump st self 0 g)) = 0
    \<and> Output (PUMP_GPIO_STEP st) True \<notin> set (emitted g (pump st self 0 g))
    \<and> idle st (pump st self 0 g)"
proof -
  have z: "nat (py_int (0 * steps_per_litre self)) = 0" by (simp add: py_int_def)
  have tr: "emitted g (pump st self 0 g) =
           [Output (PUMP_GPIO_SLEEP st) True, Sleep wake_up_time,
            Output (PUMP_GPIO_SLEEP st) False]"
    unfolding emitted_pump z by simp
  have np: "pulses_emitted st (emitted g (pump st self 0 g)) = 0"
    unfolding pulses_emitted_pump [OF assms(1)] z ..
  have nh: "Output (PUMP_GPIO_STEP st) True \<notin> set (emitted g (pump st self 0 g))"
    unfolding tr using assms(1) by simp
  have lv: "level (pump st self 0 g) = (level g)(PUMP_GPIO_SLEEP st := False)"
    by (simp add: pump_def step_def Let_def py_int_def GPIO_output_def time_sleep_def)
  have id: "idle st (pump st self 0 g)"
    using assms(2) unfolding idle_def lv by simp
  from tr np nh id show ?thesis by blast
qed

theorem pump_zero_wake_sleep_cycle_witness:
  "emitted example_gpio (pump example_settings example_pump 0 example_gpio) =
     [Output 17 True, Sleep 0.001, Output 17 False]
   \<and> idle example_settings (pump example_settings example_pump 0 example_gpio)"
  using pump_zero_wake_sleep_cycle [OF example_pins_distinct example_gpio_idle, of example_pump]
  by (simp add: example_pins wake_up_time_def)

end
